theory Spec2Isabelle
  imports Complex_Main
begin

section \<open>JavaScript values used by the handlers\<close>

text \<open>
  The handlers of \<^verbatim>\<open>server.js\<close> work on path parameters (strings), on the parsed JSON
  request body and on the numbers that \<^verbatim>\<open>parseInt\<close> and \<^verbatim>\<open>parseFloat\<close> return.
  Strings are modelled as ASCII strings. A JavaScript number is \<open>NaN\<close>, an infinity or a
  finite value; a finite value is kept as the exact rational it denotes (the rounding of
  IEEE doubles is not modelled).
\<close>

datatype number = NaN | Fin rat | PInf | NInf

datatype json =
    JNull
  | JBool bool
  | JNum number
  | JStr string
  | JArr "json list"
  | JObj "(string \<times> json) list"

text \<open>
  An object is the list of its own enumerable properties in the order in which
  \<^verbatim>\<open>Object.keys\<close> enumerates them. A property read \<^verbatim>\<open>o.k\<close> is \<open>map_of o k\<close>; \<open>None\<close> is
  \<^verbatim>\<open>undefined\<close>.
\<close>

type_synonym object = "(string \<times> json) list"

definition Object_keys :: "object \<Rightarrow> string list" where
  "Object_keys obj = map fst obj"

subsection \<open>Truthiness and comparisons\<close>

text \<open>\<^verbatim>\<open>!x\<close> on a number: true for \<open>NaN\<close> and for zero.\<close>

fun falsy_number :: "number \<Rightarrow> bool" where
  "falsy_number NaN = True"
| "falsy_number (Fin q) = (q = 0)"
| "falsy_number PInf = False"
| "falsy_number NInf = False"

text \<open>\<^verbatim>\<open>x <= 0\<close> on a number: false for \<open>NaN\<close>.\<close>

fun number_le_zero :: "number \<Rightarrow> bool" where
  "number_le_zero NaN = False"
| "number_le_zero (Fin q) = (q \<le> 0)"
| "number_le_zero PInf = False"
| "number_le_zero NInf = True"


text \<open>
  \<^verbatim>\<open>!v\<close> on a property read: \<^verbatim>\<open>undefined\<close>, \<^verbatim>\<open>null\<close>, \<^verbatim>\<open>false\<close>, zero, \<open>NaN\<close> and
  the empty string are falsy; every array and every object is truthy.
\<close>

fun falsy :: "json option \<Rightarrow> bool" where
  "falsy None = True"
| "falsy (Some JNull) = True"
| "falsy (Some (JBool b)) = (\<not> b)"
| "falsy (Some (JNum n)) = falsy_number n"
| "falsy (Some (JStr s)) = (s = [])"
| "falsy (Some (JArr xs)) = False"
| "falsy (Some (JObj kvs)) = False"

subsection \<open>\<^verbatim>\<open>String.prototype.trim\<close>\<close>

definition is_space :: "char \<Rightarrow> bool" where
  "is_space c \<longleftrightarrow> c \<in> set [CHR 0x09, CHR 0x0A, CHR 0x0B, CHR 0x0C, CHR 0x0D, CHR '' '']"

definition trim :: "string \<Rightarrow> string" where
  "trim s = rev (dropWhile is_space (rev (dropWhile is_space s)))"

subsection \<open>\<^verbatim>\<open>parseInt\<close>\<close>

text \<open>The value of a character as a digit, up to radix 16.\<close>

definition digit_value :: "char \<Rightarrow> nat option" where
  "digit_value c =
     (let n = (of_char c :: nat) in
      if 48 \<le> n \<and> n \<le> 57 then Some (n - 48)
      else if 97 \<le> n \<and> n \<le> 102 then Some (n - 87)
      else if 65 \<le> n \<and> n \<le> 70 then Some (n - 55)
      else None)"

definition is_digit_in :: "nat \<Rightarrow> char \<Rightarrow> bool" where
  "is_digit_in R c = (case digit_value c of None \<Rightarrow> False | Some d \<Rightarrow> d < R)"

definition radix_value :: "nat \<Rightarrow> string \<Rightarrow> nat" where
  "radix_value R Z = foldl (\<lambda>a c. a * R + (case digit_value c of None \<Rightarrow> 0 | Some d \<Rightarrow> d)) 0 Z"

text \<open>
  \<^verbatim>\<open>parseInt(string)\<close> with no radix argument: leading white space is skipped, a sign
  is read, \<^verbatim>\<open>0x\<close> or \<^verbatim>\<open>0X\<close> switches to radix 16, and the longest run of digits of the
  radix is the value; whatever follows is ignored. With no digit the result is \<open>NaN\<close>,
  here \<open>None\<close>.
\<close>

definition parseInt :: "string \<Rightarrow> int option" where
  "parseInt inputString =
     (let S = dropWhile is_space inputString;
          sign = (if take 1 S = ''-'' then - 1 else 1 :: int);
          S1 = (if take 1 S = ''+'' \<or> take 1 S = ''-'' then drop 1 S else S);
          hex = (take 2 S1 = ''0x'' \<or> take 2 S1 = ''0X'');
          R = (if hex then 16 else 10);
          S2 = (if hex then drop 2 S1 else S1);
          Z = takeWhile (is_digit_in R) S2
      in if Z = [] then None else Some (sign * int (radix_value R Z)))"

subsection \<open>\<^verbatim>\<open>parseFloat\<close>\<close>

definition is_digit :: "char \<Rightarrow> bool" where
  "is_digit c = is_digit_in 10 c"

text \<open>
  \<^verbatim>\<open>parseFloat(string)\<close>: leading white space is skipped and the longest prefix that is
  a decimal literal is the value: a sign, then \<^verbatim>\<open>Infinity\<close>, or digits with an optional
  fraction and an optional exponent (an exponent counts only when it has a digit).
  Without such a prefix the result is \<open>NaN\<close>.
\<close>

definition parseFloat :: "string \<Rightarrow> number" where
  "parseFloat inputString =
     (let S = dropWhile is_space inputString;
          negative = (take 1 S = ''-'');
          S1 = (if take 1 S = ''+'' \<or> take 1 S = ''-'' then drop 1 S else S)
      in if take 8 S1 = ''Infinity'' then (if negative then NInf else PInf)
         else
           let ip = takeWhile is_digit S1;
               r1 = dropWhile is_digit S1;
               has_point = (take 1 r1 = ''.'');
               fp = (if has_point then takeWhile is_digit (drop 1 r1) else []);
               r2 = (if has_point then dropWhile is_digit (drop 1 r1) else r1);
               has_e = (take 1 r2 = ''e'' \<or> take 1 r2 = ''E'');
               r3 = drop 1 r2;
               e_negative = (take 1 r3 = ''-'');
               r4 = (if take 1 r3 = ''+'' \<or> take 1 r3 = ''-'' then drop 1 r3 else r3);
               ed = takeWhile is_digit r4;
               e = (if has_e \<and> ed \<noteq> [] then radix_value 10 ed else 0);
               m = (of_nat (radix_value 10 (ip @ fp)) / 10 ^ length fp :: rat);
               v = (if e_negative then m / 10 ^ e else m * 10 ^ e)
           in if ip = [] \<and> fp = [] then NaN
              else Fin (if negative then - v else v))"

subsection \<open>\<^verbatim>\<open>parseInt\<close> and \<^verbatim>\<open>parseFloat\<close> on values of the request body\<close>

text \<open>
  Both functions first convert their argument to a string. A finite number between
  \<open>10\<^sup>-\<^sup>6\<close> and \<open>10\<^sup>2\<^sup>1\<close> prints in positional notation, so \<^verbatim>\<open>parseInt\<close> reads its
  integer part; outside that range it prints as \<^verbatim>\<open>d.ddde+n\<close> and \<^verbatim>\<open>parseInt\<close> reads the
  leading digit \<open>d\<close> only.
\<close>

function shrink_below_ten :: "rat \<Rightarrow> rat" where
  "shrink_below_ten x = (if 10 \<le> x then shrink_below_ten (x / 10) else x)"
  by pat_completeness auto
termination
proof (relation "measure (\<lambda>x. nat \<lfloor>x\<rfloor>)")
  show "wf (measure (\<lambda>x::rat. nat \<lfloor>x\<rfloor>))" by simp
next
  fix x :: rat
  assume x: "10 \<le> x"
  have "x / 10 < of_int \<lfloor>x\<rfloor>"
  proof -
    have "x < of_int \<lfloor>x\<rfloor> + 1" by linarith
    moreover have "(10::rat) \<le> of_int \<lfloor>x\<rfloor>" using x by (simp add: le_floor_iff)
    ultimately show ?thesis by linarith
  qed
  then have "\<lfloor>x / 10\<rfloor> < \<lfloor>x\<rfloor>" by (simp add: floor_less_iff)
  moreover have "0 < \<lfloor>x\<rfloor>" using x by (simp add: less_floor_iff)
  ultimately show "(x / 10, x) \<in> measure (\<lambda>x. nat \<lfloor>x\<rfloor>)" by simp
qed

function grow_above_one :: "rat \<Rightarrow> rat" where
  "grow_above_one x = (if 0 < x \<and> x < 1 then grow_above_one (x * 10) else x)"
  by pat_completeness auto
termination
proof (relation "measure (\<lambda>x. nat \<lfloor>1 / x\<rfloor>)")
  show "wf (measure (\<lambda>x::rat. nat \<lfloor>1 / x\<rfloor>))" by simp
next
  fix x :: rat
  assume x: "0 < x \<and> x < 1"
  define y where "y = 1 / x"
  have y1: "1 < y" using x by (simp add: y_def)
  have "y / 10 < of_int \<lfloor>y\<rfloor>"
  proof -
    have "y < of_int \<lfloor>y\<rfloor> + 1" by linarith
    moreover have "(1::rat) \<le> of_int \<lfloor>y\<rfloor>" using y1 by (simp add: le_floor_iff)
    ultimately show ?thesis by linarith
  qed
  then have lt: "\<lfloor>y / 10\<rfloor> < \<lfloor>y\<rfloor>" by (simp add: floor_less_iff)
  have pos: "0 < \<lfloor>y\<rfloor>" using y1 by (simp add: less_floor_iff)
  have eq: "1 / (x * 10) = y / 10" by (simp add: y_def)
  have "nat \<lfloor>y / 10\<rfloor> < nat \<lfloor>y\<rfloor>" using lt pos by linarith
  then have "nat \<lfloor>1 / (x * 10)\<rfloor> < nat \<lfloor>1 / x\<rfloor>" unfolding eq y_def .
  then show "(x * 10, x) \<in> measure (\<lambda>x. nat \<lfloor>1 / x\<rfloor>)" unfolding in_measure .
qed

definition leading_digit :: "rat \<Rightarrow> int" where
  "leading_digit x = \<lfloor>grow_above_one (shrink_below_ten x)\<rfloor>"

fun parseInt_number :: "number \<Rightarrow> int option" where
  "parseInt_number NaN = None"
| "parseInt_number PInf = None"
| "parseInt_number NInf = None"
| "parseInt_number (Fin q) =
     (let a = \<bar>q\<bar>;
          i = (if a = 0 \<or> (1 / 10 ^ 6 \<le> a \<and> a < 10 ^ 21) then \<lfloor>a\<rfloor> else leading_digit a)
      in Some (if q < 0 then - i else i))"

text \<open>
  An array prints as its elements joined by commas, \<^verbatim>\<open>null\<close> elements as the empty
  string, so only its first element can contribute a numeric prefix. \<^verbatim>\<open>true\<close>,
  \<^verbatim>\<open>null\<close>, \<^verbatim>\<open>undefined\<close> and \<^verbatim>\<open>[object Object]\<close> have none.
\<close>

fun parseInt_json :: "json \<Rightarrow> int option" where
  "parseInt_json JNull = None"
| "parseInt_json (JBool b) = None"
| "parseInt_json (JNum n) = parseInt_number n"
| "parseInt_json (JStr s) = parseInt s"
| "parseInt_json (JArr []) = None"
| "parseInt_json (JArr (x # xs)) = (if x = JNull then None else parseInt_json x)"
| "parseInt_json (JObj kvs) = None"

fun parseFloat_json :: "json \<Rightarrow> number" where
  "parseFloat_json JNull = NaN"
| "parseFloat_json (JBool b) = NaN"
| "parseFloat_json (JNum n) = n"
| "parseFloat_json (JStr s) = parseFloat s"
| "parseFloat_json (JArr []) = NaN"
| "parseFloat_json (JArr (x # xs)) = (if x = JNull then NaN else parseFloat_json x)"
| "parseFloat_json (JObj kvs) = NaN"

definition parseInt_property :: "json option \<Rightarrow> int option" where
  "parseInt_property v = (case v of None \<Rightarrow> None | Some j \<Rightarrow> parseInt_json j)"

definition parseFloat_property :: "json option \<Rightarrow> number" where
  "parseFloat_property v = (case v of None \<Rightarrow> NaN | Some j \<Rightarrow> parseFloat_json j)"

subsection \<open>Numbers inside template strings\<close>

text \<open>
  \<^verbatim>\<open>${codigoProducto}\<close> prints an integer: in positional notation below \<open>10\<^sup>2\<^sup>1\<close>, as
  \<^verbatim>\<open>d.ddde+n\<close> from there on.
\<close>

fun decimal :: "nat \<Rightarrow> string" where
  "decimal n =
     (if n < 10 then [''0123456789'' ! n]
      else decimal (n div 10) @ [''0123456789'' ! (n mod 10)])"

definition number_text :: "int \<Rightarrow> string" where
  "number_text i =
     (let n = nat \<bar>i\<bar>;
          ds = decimal n;
          sig = rev (dropWhile (\<lambda>c. c = CHR ''0'') (rev ds));
          txt = (if \<bar>i\<bar> < 10 ^ 21 then ds
                 else take 1 sig @ (if length sig \<le> 1 then [] else ''.'' @ drop 1 sig)
                      @ ''e+'' @ decimal (length ds - 1))
      in if i < 0 then ''-'' @ txt else txt)"

definition a_acute :: string where "a_acute = [CHR 0xC3, CHR 0xA1]"
definition e_acute :: string where "e_acute = [CHR 0xC3, CHR 0xA9]"
definition i_acute :: string where "i_acute = [CHR 0xC3, CHR 0xAD]"
definition o_acute :: string where "o_acute = [CHR 0xC3, CHR 0xB3]"
definition C_o_acute :: string where "C_o_acute = ''C'' @ o_acute"

text \<open>\<^verbatim>\<open>Array.prototype.join(", ")\<close> on an array of strings.\<close>

fun join :: "string list \<Rightarrow> string" where
  "join [] = []"
| "join [x] = x"
| "join (x # y # ys) = x @ '', '' @ join (y # ys)"

section \<open>The document store\<close>

text \<open>
  A stored document is a JSON object plus the \<^verbatim>\<open>_id\<close> that the driver gives it on
  insertion. The collection is the list of its documents in natural order. The state of the
  world around a handler also says whether \<^verbatim>\<open>client.connect()\<close> succeeds, which
  collection operations are rejected (their promise throws), whether writes are
  acknowledged, and records every call made to the store.
\<close>

record document =
  oid :: nat
  props :: object

datatype event =
    Connect
  | Disconnect
  | FindOne int
  | FindPrecio number
  | FindCategoria string
  | InsertOne object
  | UpdateOne int object
  | DeleteOne int

record world =
  connects :: bool
  rejects :: "event \<Rightarrow> bool"
  write_ack :: bool
  docs :: "document list"
  next_oid :: nat
  trace :: "event list"

datatype 'a settled = Rejected | Fulfilled 'a

text \<open>\<^verbatim>\<open>connectDB\<close> of \<^verbatim>\<open>src/mongodb.js\<close>: the client, or \<^verbatim>\<open>null\<close> when connecting throws.\<close>

definition connectDB :: "world \<Rightarrow> bool \<times> world" where
  "connectDB w = (connects w, w\<lparr>trace := trace w @ [Connect]\<rparr>)"

definition disconnectDB :: "world \<Rightarrow> world" where
  "disconnectDB w = w\<lparr>trace := trace w @ [Disconnect]\<rparr>"

subsection \<open>Query filters\<close>

text \<open>
  A filter on a field holds for a document when the field's value satisfies it, or when the
  value is an array and one of its elements does. A missing field satisfies none of the
  filters used here.
\<close>

fun field_test :: "(json \<Rightarrow> bool) \<Rightarrow> json option \<Rightarrow> bool" where
  "field_test p None = False"
| "field_test p (Some (JArr xs)) = (p (JArr xs) \<or> list_ex p xs)"
| "field_test p (Some v) = p v"

text \<open>\<^verbatim>\<open>{ codigo: codigoProducto }\<close>\<close>

definition codigo_is :: "int \<Rightarrow> document \<Rightarrow> bool" where
  "codigo_is c d = field_test (\<lambda>v. v = JNum (Fin (of_int c))) (map_of (props d) ''codigo'')"


text \<open>\<^verbatim>\<open>{ categoria: categoriaProducto }\<close> with a regular expression: only strings match.\<close>

definition categoria_matches :: "(string \<Rightarrow> bool) \<Rightarrow> document \<Rightarrow> bool" where
  "categoria_matches re d =
     field_test (\<lambda>v. case v of JStr s \<Rightarrow> re s | _ \<Rightarrow> False) (map_of (props d) ''categoria'')"

subsection \<open>Collection operations\<close>

text \<open>
  The result of a write. A count is \<open>None\<close> (\<^verbatim>\<open>undefined\<close>) when the operation does not
  report it, which is also the case for every count of an unacknowledged write.
\<close>

record write_result =
  acknowledged :: bool
  matchedCount :: "nat option"
  modifiedCount :: "nat option"
  deletedCount :: "nat option"

definition reported :: "world \<Rightarrow> nat \<Rightarrow> nat option" where
  "reported w n = (if write_ack w then Some n else None)"

definition findOne :: "int \<Rightarrow> world \<Rightarrow> document option settled \<times> world" where
  "findOne c w =
     (let w' = w\<lparr>trace := trace w @ [FindOne c]\<rparr>
      in if rejects w (FindOne c) then (Rejected, w')
         else (Fulfilled (find (codigo_is c) (docs w)), w'))"


definition find_categoria ::
    "string \<Rightarrow> (string \<Rightarrow> bool) \<Rightarrow> world \<Rightarrow> document list settled \<times> world" where
  "find_categoria src re w =
     (let w' = w\<lparr>trace := trace w @ [FindCategoria src]\<rparr>
      in if rejects w (FindCategoria src) then (Rejected, w')
         else (Fulfilled (filter (categoria_matches re) (docs w)), w'))"

text \<open>
  \<^verbatim>\<open>insertOne\<close> gives the object an \<^verbatim>\<open>_id\<close> and appends it; the caller's object is the
  document returned here.
\<close>

definition insertOne :: "object \<Rightarrow> world \<Rightarrow> (write_result \<times> document) settled \<times> world" where
  "insertOne obj w =
     (let w' = w\<lparr>trace := trace w @ [InsertOne obj]\<rparr>;
          d = \<lparr>oid = next_oid w, props = obj\<rparr>
      in if rejects w (InsertOne obj) then (Rejected, w')
         else (Fulfilled (\<lparr>acknowledged = write_ack w, matchedCount = None,
                            modifiedCount = None, deletedCount = None\<rparr>, d),
               w'\<lparr>docs := docs w @ [d], next_oid := Suc (next_oid w)\<rparr>))"

text \<open>\<^verbatim>\<open>$set\<close>: an existing field keeps its place, a new field goes to the end.\<close>

fun set_field :: "string \<Rightarrow> json \<Rightarrow> object \<Rightarrow> object" where
  "set_field k v [] = [(k, v)]"
| "set_field k v ((k', v') # kvs) =
     (if k' = k then (k, v) # kvs else (k', v') # set_field k v kvs)"

definition set_fields :: "object \<Rightarrow> document \<Rightarrow> document" where
  "set_fields upd d = d\<lparr>props := fold (\<lambda>(k, v). set_field k v) upd (props d)\<rparr>"

fun update_first :: "(document \<Rightarrow> bool) \<Rightarrow> (document \<Rightarrow> document) \<Rightarrow> document list \<Rightarrow> document list" where
  "update_first p f [] = []"
| "update_first p f (d # ds) = (if p d then f d # ds else d # update_first p f ds)"

fun remove_first :: "(document \<Rightarrow> bool) \<Rightarrow> document list \<Rightarrow> document list" where
  "remove_first p [] = []"
| "remove_first p (d # ds) = (if p d then ds else d # remove_first p ds)"

text \<open>
  \<^verbatim>\<open>updateOne(filter, { $set: upd })\<close> changes the first document that matches;
  \<^verbatim>\<open>modifiedCount\<close> is 1 only when that document is different afterwards.
\<close>

definition updateOne :: "int \<Rightarrow> object \<Rightarrow> world \<Rightarrow> write_result settled \<times> world" where
  "updateOne c upd w =
     (let w' = w\<lparr>trace := trace w @ [UpdateOne c upd]\<rparr>
      in if rejects w (UpdateOne c upd) then (Rejected, w')
         else
           (case find (codigo_is c) (docs w) of
              None \<Rightarrow>
                (Fulfilled \<lparr>acknowledged = write_ack w, matchedCount = reported w 0,
                            modifiedCount = reported w 0, deletedCount = None\<rparr>, w')
            | Some d \<Rightarrow>
                (Fulfilled \<lparr>acknowledged = write_ack w, matchedCount = reported w 1,
                            modifiedCount = reported w (if set_fields upd d = d then 0 else 1),
                            deletedCount = None\<rparr>,
                 w'\<lparr>docs := update_first (codigo_is c) (set_fields upd) (docs w)\<rparr>)))"

definition deleteOne :: "int \<Rightarrow> world \<Rightarrow> write_result settled \<times> world" where
  "deleteOne c w =
     (let w' = w\<lparr>trace := trace w @ [DeleteOne c]\<rparr>
      in if rejects w (DeleteOne c) then (Rejected, w')
         else
           (Fulfilled \<lparr>acknowledged = write_ack w, matchedCount = None, modifiedCount = None,
                       deletedCount = reported w (if list_ex (codigo_is c) (docs w) then 1 else 0)\<rparr>,
            w'\<lparr>docs := remove_first (codigo_is c) (docs w)\<rparr>))"

section \<open>Regular expressions\<close>

text \<open>
  The category handler builds \<^verbatim>\<open>new RegExp(`^${queryProducto}$`, "i")\<close> from the path
  parameter as it is. The handler below takes the constructor as a parameter: it maps a
  pattern source to the test \<^verbatim>\<open>re.test(s)\<close>, or to \<open>None\<close> when it throws a
  \<^verbatim>\<open>SyntaxError\<close>.

  \<open>RegExp_i\<close> is that constructor on a fragment of the pattern language: between the
  anchors \<^verbatim>\<open>^\<close> and \<^verbatim>\<open>$\<close>, ordinary characters (compared without regard to case) and
  \<^verbatim>\<open>.\<close>, each optionally followed by \<^verbatim>\<open>*\<close>. It is \<open>None\<close> on every other pattern,
  whether JavaScript accepts it or not; it is only ever used on patterns of the fragment.
\<close>

type_synonym regexp_constructor = "string \<Rightarrow> (string \<Rightarrow> bool) option"

datatype atom = Lit char | AnyChar

datatype piece = One atom | Many atom

definition is_syntax_char :: "char \<Rightarrow> bool" where
  "is_syntax_char c \<longleftrightarrow> c \<in> set (CHR 0x5C # ''^$.*+?()[]{}|/'')"

definition atom_of :: "char \<Rightarrow> atom option" where
  "atom_of c = (if c = CHR ''.'' then Some AnyChar
                else if is_syntax_char c then None else Some (Lit c))"

fun parse_pieces :: "string \<Rightarrow> piece list option" where
  "parse_pieces [] = Some []"
| "parse_pieces [c] = map_option (\<lambda>a. [One a]) (atom_of c)"
| "parse_pieces (c # c' # cs) =
     (case atom_of c of
        None \<Rightarrow> None
      | Some a \<Rightarrow>
          if c' = CHR ''*'' then map_option (Cons (Many a)) (parse_pieces cs)
          else map_option (Cons (One a)) (parse_pieces (c' # cs)))"

definition lower :: "char \<Rightarrow> char" where
  "lower c = (let n = (of_char c :: nat) in if 65 \<le> n \<and> n \<le> 90 then char_of (n + 32) else c)"

fun atom_accepts :: "atom \<Rightarrow> char \<Rightarrow> bool" where
  "atom_accepts (Lit a) c = (lower a = lower c)"
| "atom_accepts AnyChar c = (c \<noteq> CHR 0x0A \<and> c \<noteq> CHR 0x0D)"

fun matches :: "piece list \<Rightarrow> string \<Rightarrow> bool" where
  "matches [] s = (s = [])"
| "matches (One a # ps) [] = False"
| "matches (One a # ps) (c # cs) = (atom_accepts a c \<and> matches ps cs)"
| "matches (Many a # ps) [] = matches ps []"
| "matches (Many a # ps) (c # cs) =
     (matches ps (c # cs) \<or> (atom_accepts a c \<and> matches (Many a # ps) cs))"

definition RegExp_i :: regexp_constructor where
  "RegExp_i src =
     (if 2 \<le> length src \<and> hd src = CHR ''^'' \<and> last src = CHR ''$''
      then map_option matches (parse_pieces (butlast (tl src)))
      else None)"

section \<open>The request handlers of \<^verbatim>\<open>server.js\<close>\<close>

text \<open>
  A response is the status and the object given to \<^verbatim>\<open>res.status(...).json(...)\<close>, its
  keys in the order of the source. A handler maps the request and the world before it to the
  response and the world after it.
\<close>

datatype payload =
    Flag bool
  | Text string
  | Echo object
  | Doc document
  | Docs "document list"

record response =
  status :: nat
  body :: "(string \<times> payload) list"

definition json_response :: "nat \<Rightarrow> (string \<times> payload) list \<Rightarrow> response" where
  "json_response code obj = \<lparr>status = code, body = obj\<rparr>"

text \<open>\<^verbatim>\<open>finally { await disconnectDB(); }\<close>\<close>

definition finally_disconnect :: "response \<times> world \<Rightarrow> response \<times> world" where
  "finally_disconnect rw = (fst rw, disconnectDB (snd rw))"

definition msg_conexion :: string where
  "msg_conexion = ''Error al conectarse a MongoDB''"

subsection \<open>\<^verbatim>\<open>controlDeCampos\<close> of \<^verbatim>\<open>utils.js\<close>\<close>

definition camposPermitidos :: "string list" where
  "camposPermitidos = [''codigo'', ''nombre'', ''precio'', ''categoria'']"

definition controlDeCampos :: "object \<Rightarrow> string list" where
  "controlDeCampos nuevoProducto =
     filter (\<lambda>campo. campo \<notin> set camposPermitidos) (Object_keys nuevoProducto)"

definition msg_campos :: "string list \<Rightarrow> string" where
  "msg_campos camposNoPermitidos =
     ''Error, se enviaron campos que no est'' @ a_acute @ ''n en la base de datos: ''
       @ join camposNoPermitidos"

subsection \<open>\<^verbatim>\<open>GET /computacion/codigo/:codigo\<close>\<close>


subsection \<open>\<^verbatim>\<open>GET /computacion/precio/:precio\<close>\<close>


subsection \<open>\<^verbatim>\<open>GET /computacion/categoria/:categoria\<close>\<close>

text \<open>
  The regular expression is built before the \<^verbatim>\<open>try\<close>: when the constructor throws, the
  handler sends no response (\<open>None\<close>) and leaves the world as it was.
\<close>

definition get_categoria ::
    "regexp_constructor \<Rightarrow> string \<Rightarrow> world \<Rightarrow> response option \<times> world" where
  "get_categoria RegExp categoria w =
     (let queryProducto = trim categoria;
          src = ''^'' @ queryProducto @ ''$''
      in case RegExp src of
           None \<Rightarrow> (None, w)
         | Some categoriaProducto \<Rightarrow>
             map_prod Some id
               (finally_disconnect
                 (case connectDB w of
                    (False, w1) \<Rightarrow>
                      (json_response 500
                         [(''success'', Flag False), (''msg'', Text msg_conexion)], w1)
                  | (True, w1) \<Rightarrow>
                      (case find_categoria src categoriaProducto w1 of
                         (Rejected, w2) \<Rightarrow>
                           (json_response 500
                              [(''success'', Flag False),
                               (''msg'', Text (''Error al obtener la categor'' @ i_acute
                                               @ ''a de la base de datos''))], w2)
                       | (Fulfilled productos, w2) \<Rightarrow>
                           if length productos > 0 then
                             (json_response 200
                                [(''respnse'', Docs productos),
                                 (''success'', Flag True),
                                 (''msg'', Text (''Categor'' @ i_acute @ ''a encontrada con ''
                                                 @ e_acute @ ''xito''))], w2)
                           else
                             (json_response 404
                                [(''success'', Flag False),
                                 (''msg'', Text (''Categor'' @ i_acute @ ''a no encontrada''))],
                              w2)))))"

subsection \<open>\<^verbatim>\<open>POST /computacion\<close>\<close>

text \<open>
  The request body is the object that \<^verbatim>\<open>express.json()\<close> parsed (the empty object when
  the request has none), so the branch for an \<^verbatim>\<open>undefined\<close> body is never taken and is
  left out. \<^verbatim>\<open>!codigoProducto\<close> holds for \<open>NaN\<close> (here \<open>None\<close>) and for zero. The check of
  the allowed fields comes before the \<^verbatim>\<open>try\<close>.
\<close>

definition post_computacion :: "object \<Rightarrow> world \<Rightarrow> response \<times> world" where
  "post_computacion nuevoProducto w =
     (let codigoProducto = parseInt_property (map_of nuevoProducto ''codigo'');
          camposNoPermitidos = controlDeCampos nuevoProducto
      in if length camposNoPermitidos > 0 then
           (json_response 400
              [(''success'', Flag False), (''msg'', Text (msg_campos camposNoPermitidos))], w)
         else
           finally_disconnect
             (case codigoProducto of
                None \<Rightarrow>
                  (json_response 400
                     [(''success'', Flag False),
                      (''msg'', Text (C_o_acute @ ''digo de producto inv'' @ a_acute @ ''lido''))], w)
              | Some c \<Rightarrow>
                  if c = 0 \<or> c < 1 then
                    (json_response 400
                       [(''success'', Flag False),
                        (''msg'', Text (C_o_acute @ ''digo de producto inv'' @ a_acute @ ''lido''))], w)
                  else if falsy (map_of nuevoProducto ''nombre'')
                          \<or> map_of nuevoProducto ''nombre'' = Some (JStr []) then
                    (json_response 400
                       [(''success'', Flag False),
                        (''msg'', Text ''Le falta enviar el nombre del producto'')], w)
                  else if falsy (map_of nuevoProducto ''precio'')
                          \<or> map_of nuevoProducto ''precio'' = Some (JStr []) then
                    (json_response 400
                       [(''success'', Flag False),
                        (''msg'', Text ''Le falta enviar el precio del producto'')], w)
                  else if falsy (map_of nuevoProducto ''categoria'')
                          \<or> map_of nuevoProducto ''categoria'' = Some (JStr []) then
                    (json_response 400
                       [(''success'', Flag False),
                        (''msg'', Text ''Le falta enviar la categoria del producto'')], w)
                  else
                    (case connectDB w of
                       (False, w1) \<Rightarrow>
                         (json_response 500
                            [(''success'', Flag False), (''msg'', Text msg_conexion)], w1)
                     | (True, w1) \<Rightarrow>
                         (case findOne c w1 of
                            (Rejected, w2) \<Rightarrow>
                              (json_response 500
                                 [(''success'', Flag False),
                                  (''msg'', Text ''Error al intentar agregar un nuevo producto'')], w2)
                          | (Fulfilled (Some codigoExiste), w2) \<Rightarrow>
                              (json_response 400
                                 [(''success'', Flag False),
                                  (''msg'', Text (''El c'' @ o_acute @ ''digo de producto ''
                                     @ number_text c
                                     @ '', ya existe. No puede haber otro nuevo producto con el mismo c''
                                     @ o_acute @ ''digo''))], w2)
                          | (Fulfilled None, w2) \<Rightarrow>
                              (case insertOne nuevoProducto w2 of
                                 (Rejected, w3) \<Rightarrow>
                                   (json_response 500
                                      [(''success'', Flag False),
                                       (''msg'', Text ''Error al intentar agregar un nuevo producto'')],
                                    w3)
                               | (Fulfilled (response, inserted), w3) \<Rightarrow>
                                   if acknowledged response then
                                     (json_response 201
                                        [(''response'', Doc inserted),
                                         (''success'', Flag True),
                                         (''msg'', Text (''Nuevo producto creado con '' @ e_acute
                                                         @ ''xito''))], w3)
                                   else
                                     (json_response 500
                                        [(''success'', Flag False),
                                         (''msg'', Text ''No se pudo crear el nuevo producto'')],
                                      w3))))))"

subsection \<open>\<^verbatim>\<open>PUT /computacion/:codigo\<close>\<close>

text \<open>
  \<^verbatim>\<open>!nuevosDatos\<close> is false for every object, so the handler starts with the check of
  the path code, and only then looks at the fields of the body.
\<close>

definition put_computacion :: "string \<Rightarrow> object \<Rightarrow> world \<Rightarrow> response \<times> world" where
  "put_computacion codigo nuevosDatos w =
     (let codigoProducto = parseInt (trim codigo)
      in finally_disconnect
           (case codigoProducto of
              None \<Rightarrow>
                (json_response 400
                   [(''success'', Flag False),
                    (''msg'', Text (''El c'' @ o_acute @ ''digo de producto es inv'' @ a_acute
                                    @ ''lido''))], w)
            | Some c \<Rightarrow>
                if c = 0 then
                  (json_response 400
                     [(''success'', Flag False),
                      (''msg'', Text (''El c'' @ o_acute @ ''digo de producto es inv'' @ a_acute
                                      @ ''lido''))], w)
                else
                  let camposNoPermitidos = controlDeCampos nuevosDatos
                  in if length camposNoPermitidos > 0 then
                       (json_response 400
                          [(''success'', Flag False),
                           (''msg'', Text (msg_campos camposNoPermitidos))], w)
                     else if falsy (map_of nuevosDatos ''codigo'')
                             \<or> map_of nuevosDatos ''codigo'' = Some (JStr []) then
                       (json_response 400
                          [(''success'', Flag False),
                           (''msg'', Text (''Le falta enviar el c'' @ o_acute
                                           @ ''digo del producto para modificar''))], w)
                     else if falsy (map_of nuevosDatos ''nombre'')
                             \<or> map_of nuevosDatos ''nombre'' = Some (JStr []) then
                       (json_response 400
                          [(''success'', Flag False),
                           (''msg'', Text ''Le falta enviar el nombre del producto para modificar'')],
                        w)
                     else if falsy (map_of nuevosDatos ''precio'')
                             \<or> map_of nuevosDatos ''precio'' = Some (JStr []) then
                       (json_response 400
                          [(''success'', Flag False),
                           (''msg'', Text ''Le falta enviar el precio del producto a modificar'')], w)
                     else if falsy (map_of nuevosDatos ''categoria'')
                             \<or> map_of nuevosDatos ''categoria'' = Some (JStr []) then
                       (json_response 400
                          [(''success'', Flag False),
                           (''msg'', Text (''Le falta enviar la categor'' @ i_acute
                                           @ ''a del producto a modificar''))], w)
                     else
                       (case connectDB w of
                          (False, w1) \<Rightarrow>
                            (json_response 500
                               [(''success'', Flag False), (''msg'', Text msg_conexion)], w1)
                        | (True, w1) \<Rightarrow>
                            (case updateOne c nuevosDatos w1 of
                               (Rejected, w2) \<Rightarrow>
                                 (json_response 500
                                    [(''success'', Flag False),
                                     (''msg'', Text ''Error al modificar el producto'')], w2)
                             | (Fulfilled response, w2) \<Rightarrow>
                                 if acknowledged response \<and> matchedCount response = Some 1
                                    \<and> modifiedCount response = Some 1 then
                                   (json_response 200
                                      [(''response'', Echo nuevosDatos),
                                       (''success'', Flag True),
                                       (''msg'', Text (''Datos modificados con '' @ e_acute
                                                       @ ''xito''))], w2)
                                 else
                                   (json_response 500
                                      [(''response'', Flag False),
                                       (''msg'', Text ''No se pudo modificar el producto, intente nuevamente'')],
                                    w2)))))"

subsection \<open>\<^verbatim>\<open>PATCH /computacion/:codigo\<close>\<close>

definition patch_computacion :: "string \<Rightarrow> object \<Rightarrow> world \<Rightarrow> response \<times> world" where
  "patch_computacion codigo reqBody w =
     (let codigoProducto = parseInt (trim codigo);
          nuevoPrecio = parseFloat_property (map_of reqBody ''precio'')
      in finally_disconnect
           (case codigoProducto of
              None \<Rightarrow>
                (json_response 400
                   [(''success'', Flag False),
                    (''msg'', Text (''El c'' @ o_acute @ ''digo de producto es inv'' @ a_acute
                                    @ ''lido''))], w)
            | Some c \<Rightarrow>
                if c = 0 \<or> c \<le> 0 then
                  (json_response 400
                     [(''success'', Flag False),
                      (''msg'', Text (''El c'' @ o_acute @ ''digo de producto es inv'' @ a_acute
                                      @ ''lido''))], w)
                else if falsy_number nuevoPrecio \<or> number_le_zero nuevoPrecio then
                  (json_response 400
                     [(''success'', Flag False),
                      (''msg'', Text (''Ingrese un precio v'' @ a_acute
                                      @ ''lido para el producto''))], w)
                else
                  (case connectDB w of
                     (False, w1) \<Rightarrow>
                       (json_response 500
                          [(''success'', Flag False), (''msg'', Text msg_conexion)], w1)
                   | (True, w1) \<Rightarrow>
                       (case updateOne c [(''precio'', JNum nuevoPrecio)] w1 of
                          (Rejected, w2) \<Rightarrow>
                            (json_response 500
                               [(''success'', Flag False),
                                (''msg'', Text ''Error al modificar el precio del producto'')], w2)
                        | (Fulfilled response, w2) \<Rightarrow>
                            if matchedCount response = Some 1 \<and> modifiedCount response = Some 1 then
                              (json_response 200
                                 [(''success'', Flag True),
                                  (''msg'', Text (''Precio modificado con '' @ e_acute @ ''xito''))],
                               w2)
                            else
                              (json_response 404
                                 [(''success'', Flag False),
                                  (''msg'', Text (''El producto solicitado con c'' @ o_acute
                                     @ ''digo '' @ number_text c @ '', no existe''))], w2)))))"

subsection \<open>\<^verbatim>\<open>DELETE /computacion/:codigo\<close>\<close>

definition delete_computacion :: "string \<Rightarrow> world \<Rightarrow> response \<times> world" where
  "delete_computacion codigo w =
     (let codigoProducto = parseInt (trim codigo)
      in finally_disconnect
           (case codigoProducto of
              None \<Rightarrow>
                (json_response 400
                   [(''success'', Flag False), (''msg'', Text ''Error en el formato de datos'')], w)
            | Some c \<Rightarrow>
                if c = 0 then
                  (json_response 400
                     [(''success'', Flag False), (''msg'', Text ''Error en el formato de datos'')], w)
                else
                  (case connectDB w of
                     (False, w1) \<Rightarrow>
                       (json_response 500
                          [(''success'', Flag False), (''msg'', Text msg_conexion)], w1)
                   | (True, w1) \<Rightarrow>
                       (case deleteOne c w1 of
                          (Rejected, w2) \<Rightarrow>
                            (json_response 500
                               [(''success'', Flag False),
                                (''msg'', Text ''Error al eliminar el producto'')], w2)
                        | (Fulfilled response, w2) \<Rightarrow>
                            if \<not> acknowledged response \<and> deletedCount response = Some 0 then
                              (json_response 404
                                 [(''success'', Flag False),
                                  (''msg'', Text (''No se encontr'' @ o_acute
                                     @ '' ningun producto con el c'' @ o_acute
                                     @ ''digo seleccionado''))], w2)
                            else
                              (json_response 200
                                 [(''success'', Flag True),
                                  (''msg'', Text (''Producto eliminado con '' @ e_acute @ ''xito''))],
                               w2)))))"

section \<open>Notions of the specification and example worlds\<close>

text \<open>
  The response envelope of the specification, \<^verbatim>\<open>{success: bool, msg: string, response?: any}\<close>:
  a boolean under \<^verbatim>\<open>success\<close>, a string under \<^verbatim>\<open>msg\<close>, and no key other than these two
  and \<^verbatim>\<open>response\<close>.
\<close>

definition envelope :: "response \<Rightarrow> bool" where
  "envelope r \<longleftrightarrow>
     (case map_of (body r) ''success'' of Some (Flag b) \<Rightarrow> True | _ \<Rightarrow> False)
     \<and> (case map_of (body r) ''msg'' of Some (Text m) \<Rightarrow> True | _ \<Rightarrow> False)
     \<and> set (map fst (body r)) \<subseteq> {''success'', ''msg'', ''response''}"







text \<open>A store that is reachable, answers and acknowledges writes, with an empty collection.\<close>

definition quiet_world :: world where
  "quiet_world =
     \<lparr>connects = True, rejects = (\<lambda>op. False), write_ack = True, docs = [], next_oid = 0, trace = []\<rparr>"

definition monitor_led :: document where
  "monitor_led =
     \<lparr>oid = 0,
      props = [(''codigo'', JNum (Fin 1)), (''nombre'', JStr ''LG 24''),
               (''precio'', JNum (Fin 100)), (''categoria'', JStr ''Monitores LED'')]\<rparr>"

text \<open>The same store holding one product.\<close>

definition shop_world :: world where
  "shop_world = quiet_world\<lparr>docs := [monitor_led], next_oid := 1\<rparr>"

section \<open>Properties\<close>

lemmas parse_defs =
  parseInt_def parseFloat_def trim_def is_space_def is_digit_def is_digit_in_def
  digit_value_def radix_value_def

lemma map_of_set_field: "map_of (set_field k v obj) = (map_of obj)(k \<mapsto> v)"
  by (induction obj) (auto simp: fun_eq_iff)

lemma update_first_nth:
  "find p xs = Some d \<Longrightarrow>
     \<exists>i<length xs. xs ! i = d \<and> p d \<and> (\<forall>j<i. \<not> p (xs ! j)) \<and> update_first p f xs = xs[i := f d]"
proof (induction xs)
  case Nil
  then show ?case by simp
next
  case (Cons x xs)
  show ?case
  proof (cases "p x")
    case True
    with Cons.prems have "x = d" by simp
    with True show ?thesis by (intro exI[of _ 0]) simp
  next
    case False
    with Cons.prems have "find p xs = Some d" by simp
    from Cons.IH[OF this] obtain i where i: "i < length xs" "xs ! i = d" "p d"
      "\<forall>j<i. \<not> p (xs ! j)" "update_first p f xs = xs[i := f d]" by blast
    have "\<forall>j<Suc i. \<not> p ((x # xs) ! j)"
      using False i(4) by (auto simp: less_Suc_eq_0_disj)
    with i False show ?thesis by (intro exI[of _ "Suc i"]) simp
  qed
qed







subsection \<open>Disallowed fields\<close>




subsection \<open>Delete\<close>

text \<open>
  C2 at a failing input. The collection is empty and the store acknowledges writes, so
  \<^verbatim>\<open>deleteOne\<close> reports \<^verbatim>\<open>deletedCount\<close> 0; the handler tests
  \<^verbatim>\<open>!response.acknowledged && response.deletedCount === 0\<close> and answers 200, not 404.
\<close>

theorem C2_delete_absent_code:
  "find (codigo_is 999) (docs quiet_world) = None
   \<and> write_ack quiet_world
   \<and> fst (delete_computacion ''999'' quiet_world) =
       json_response 200
         [(''success'', Flag True),
          (''msg'', Text (''Producto eliminado con '' @ e_acute @ ''xito''))]"
  by (simp add: delete_computacion_def parse_defs finally_disconnect_def connectDB_def
      deleteOne_def reported_def quiet_world_def)

subsection \<open>Create\<close>

text \<open>
  C3 at a failing input. The body carries \<^verbatim>\<open>codigo: "10"\<close> as a string. The handler
  looks for the number 10 and stores the body as it came, so the second request finds
  nothing, answers 201 again, and the collection holds two documents with the same
  \<^verbatim>\<open>codigo\<close>.
\<close>

theorem C3_create_same_code_twice:
  "status (fst (post_computacion
       [(''codigo'', JStr ''10''), (''nombre'', JStr ''LG''), (''precio'', JNum (Fin 100)),
        (''categoria'', JStr ''Monitores'')] quiet_world)) = 201
   \<and> status (fst (post_computacion
       [(''codigo'', JStr ''10''), (''nombre'', JStr ''LG''), (''precio'', JNum (Fin 100)),
        (''categoria'', JStr ''Monitores'')]
       (snd (post_computacion
          [(''codigo'', JStr ''10''), (''nombre'', JStr ''LG''), (''precio'', JNum (Fin 100)),
           (''categoria'', JStr ''Monitores'')] quiet_world)))) = 201
   \<and> map (\<lambda>d. map_of (props d) ''codigo'')
        (docs (snd (post_computacion
          [(''codigo'', JStr ''10''), (''nombre'', JStr ''LG''), (''precio'', JNum (Fin 100)),
           (''categoria'', JStr ''Monitores'')]
          (snd (post_computacion
             [(''codigo'', JStr ''10''), (''nombre'', JStr ''LG''), (''precio'', JNum (Fin 100)),
              (''categoria'', JStr ''Monitores'')] quiet_world)))))
       = [Some (JStr ''10''), Some (JStr ''10'')]"
  by code_simp

subsection \<open>Get by category\<close>

text \<open>
  C4 at a failing input. The path parameter \<^verbatim>\<open>Monitores.*\<close> goes into the pattern
  unescaped, and the product of category \<^verbatim>\<open>Monitores LED\<close> is returned.
\<close>

theorem C4_pattern_characters:
  "map_of (props monitor_led) ''categoria'' = Some (JStr ''Monitores LED'')
   \<and> fst (get_categoria RegExp_i ''Monitores.*'' shop_world) =
       Some (json_response 200
         [(''respnse'', Docs [monitor_led]),
          (''success'', Flag True),
          (''msg'', Text (''Categor'' @ i_acute @ ''a encontrada con '' @ e_acute @ ''xito''))])"
  by code_simp

subsection \<open>The response envelope\<close>

text \<open>
  C5 at two failing inputs. A successful get by category puts its data under the key
  \<^verbatim>\<open>respnse\<close>; a replace that matches no document answers with
  \<^verbatim>\<open>{response: false, msg}\<close>, without \<^verbatim>\<open>success\<close>.
\<close>

theorem C5_envelope_broken:
  "map_option envelope (fst (get_categoria RegExp_i ''monitores led'' shop_world)) = Some False
   \<and> map_option (map fst \<circ> body) (fst (get_categoria RegExp_i ''monitores led'' shop_world))
       = Some [''respnse'', ''success'', ''msg'']
   \<and> \<not> envelope (fst (put_computacion ''7''
         [(''codigo'', JNum (Fin 7)), (''nombre'', JStr ''LG''), (''precio'', JNum (Fin 100)),
          (''categoria'', JStr ''Monitores'')] shop_world))
   \<and> map fst (body (fst (put_computacion ''7''
         [(''codigo'', JNum (Fin 7)), (''nombre'', JStr ''LG''), (''precio'', JNum (Fin 100)),
          (''categoria'', JStr ''Monitores'')] shop_world))) = [''response'', ''msg'']"
  by code_simp

subsection \<open>Price patch\<close>

text \<open>
  C6. When the price patch answers 200, the collection afterwards is the collection before
  with one document changed: the first one whose \<^verbatim>\<open>codigo\<close> matches the path code. In
  that document \<^verbatim>\<open>precio\<close> is the new price and every other field, so \<^verbatim>\<open>codigo\<close>,
  \<^verbatim>\<open>nombre\<close> and \<^verbatim>\<open>categoria\<close>, reads as before.
\<close>

theorem C6_patch_frame:
  "status (fst (patch_computacion codigo reqBody w)) = 200 \<Longrightarrow>
     \<exists>c p i d. parseInt (trim codigo) = Some c
       \<and> parseFloat_property (map_of reqBody ''precio'') = p
       \<and> i < length (docs w) \<and> docs w ! i = d \<and> codigo_is c d
       \<and> (\<forall>j<i. \<not> codigo_is c (docs w ! j))
       \<and> docs (snd (patch_computacion codigo reqBody w)) =
            (docs w)[i := d\<lparr>props := set_field ''precio'' (JNum p) (props d)\<rparr>]
       \<and> map_of (set_field ''precio'' (JNum p) (props d)) = (map_of (props d))(''precio'' \<mapsto> JNum p)"
proof -
  assume ok: "status (fst (patch_computacion codigo reqBody w)) = 200"
  define p where "p = parseFloat_property (map_of reqBody ''precio'')"
  from ok obtain c where c: "parseInt (trim codigo) = Some c"
    by (cases "parseInt (trim codigo)")
      (auto simp: patch_computacion_def finally_disconnect_def json_response_def)
  from ok c have conn: "connects w" and rej: "\<not> rejects w (UpdateOne c [(''precio'', JNum p)])"
    by (auto simp: patch_computacion_def finally_disconnect_def json_response_def
        connectDB_def updateOne_def Let_def p_def split: if_splits bool.splits)
  from ok c conn rej obtain d where d: "find (codigo_is c) (docs w) = Some d"
    by (cases "find (codigo_is c) (docs w)")
      (auto simp: patch_computacion_def finally_disconnect_def json_response_def
        connectDB_def updateOne_def Let_def reported_def split: if_splits)
  have after: "docs (snd (patch_computacion codigo reqBody w)) =
      update_first (codigo_is c) (set_fields [(''precio'', JNum p)]) (docs w)"
    using ok c d conn rej
    by (auto simp: patch_computacion_def finally_disconnect_def json_response_def
        connectDB_def updateOne_def Let_def reported_def disconnectDB_def p_def split: if_splits)
  from update_first_nth[OF d, of "set_fields [(''precio'', JNum p)]"]
  obtain i where i: "i < length (docs w)" "docs w ! i = d" "codigo_is c d"
    "\<forall>j<i. \<not> codigo_is c (docs w ! j)"
    "update_first (codigo_is c) (set_fields [(''precio'', JNum p)]) (docs w)
       = (docs w)[i := set_fields [(''precio'', JNum p)] d]"
    by blast
  have "set_fields [(''precio'', JNum p)] d = d\<lparr>props := set_field ''precio'' (JNum p) (props d)\<rparr>"
    by (simp add: set_fields_def)
  with after i c show ?thesis
    by (auto simp: p_def map_of_set_field)
qed

text \<open>
  The theorem at \<^verbatim>\<open>PATCH /computacion/1\<close> with \<^verbatim>\<open>{precio: 150}\<close> on the store that
  holds product 1: only its price is different afterwards.
\<close>

theorem C6_patch_frame_witness:
  "status (fst (patch_computacion ''1'' [(''precio'', JNum (Fin 150))] shop_world)) = 200
   \<and> docs (snd (patch_computacion ''1'' [(''precio'', JNum (Fin 150))] shop_world)) =
       [\<lparr>oid = 0,
         props = [(''codigo'', JNum (Fin 1)), (''nombre'', JStr ''LG 24''),
                  (''precio'', JNum (Fin 150)), (''categoria'', JStr ''Monitores LED'')]\<rparr>]"
proof -
  have h: "status (fst (patch_computacion ''1'' [(''precio'', JNum (Fin 150))] shop_world)) = 200"
    by code_simp
  from C6_patch_frame[OF h] obtain p i d where
    P: "parseFloat_property (map_of [(''precio'', JNum (Fin 150))] ''precio'') = p" and
    I: "i < length (docs shop_world)" and
    D: "docs shop_world ! i = d" and
    A: "docs (snd (patch_computacion ''1'' [(''precio'', JNum (Fin 150))] shop_world)) =
       (docs shop_world)[i := d\<lparr>props := set_field ''precio'' (JNum p) (props d)\<rparr>]"
    by blast
  have i0: "i = 0" using I by (simp add: shop_world_def)
  have d: "d = monitor_led" using D i0 by (simp add: shop_world_def)
  have p: "p = Fin 150" using P by (simp add: parseFloat_property_def)
  have "docs (snd (patch_computacion ''1'' [(''precio'', JNum (Fin 150))] shop_world)) =
       [monitor_led\<lparr>props := set_field ''precio'' (JNum (Fin 150)) (props monitor_led)\<rparr>]"
    unfolding A i0 d p by (simp add: shop_world_def)
  then show ?thesis
    using h by (simp add: monitor_led_def)
qed

text \<open>
  C7 at a failing input. Product 1 exists with price 100 and the patch sends the price 100:
  \<^verbatim>\<open>updateOne\<close> matches the document and modifies nothing, the handler requires
  \<^verbatim>\<open>modifiedCount === 1\<close>, and it answers 404 with the message that the product does
  not exist.
\<close>

theorem C7_patch_same_price:
  "find (codigo_is 1) (docs shop_world) = Some monitor_led
   \<and> write_ack shop_world
   \<and> fst (patch_computacion ''1'' [(''precio'', JNum (Fin 100))] shop_world) =
       json_response 404
         [(''success'', Flag False),
          (''msg'', Text (''El producto solicitado con c'' @ o_acute @ ''digo 1, no existe''))]"
  by code_simp

subsection \<open>Get by price\<close>




subsection \<open>Validation comes before the store\<close>



subsection \<open>Path codes with a leading integer\<close>




end
